theory Spec2Isabelle
  imports Main "HOL-Library.Word" "HOL-Library.Stream"
begin

section \<open>Bytes, hexadecimal text and the random source\<close>

type_synonym byte = "8 word"

text \<open>
  Times are milliseconds since the epoch, as \<^verbatim>\<open>Date.now()\<close> gives them: integers far
  below \<open>2 ^ 53\<close>, on which the additions of the handlers are exact.
\<close>

type_synonym timestamp = int

text \<open>
  \<^verbatim>\<open>randomBytes(n)\<close> takes the next \<open>n\<close> bytes of the system's random source. The source
  is an infinite supply of bytes; a draw returns the bytes and the rest of the supply.
\<close>

type_synonym rng = "byte stream"

definition randomBytes :: "nat \<Rightarrow> rng \<Rightarrow> byte list \<times> rng" where
  "randomBytes n r = (stake n r, sdrop n r)"

text \<open>\<^verbatim>\<open>buf.toString("hex")\<close>: two lower-case digits for each byte, high nibble first.\<close>

definition hex_digit :: "nat \<Rightarrow> char" where
  "hex_digit n = ''0123456789abcdef'' ! (n mod 16)"

definition hex_of_byte :: "byte \<Rightarrow> string" where
  "hex_of_byte b = [hex_digit (unat b div 16), hex_digit (unat b mod 16)]"

definition to_hex :: "byte list \<Rightarrow> string" where
  "to_hex bs = concat (map hex_of_byte bs)"

text \<open>
  \<^verbatim>\<open>Buffer.from(s, "hex")\<close>: reads the text two characters at a time, accepts digits of
  either case, and stops at the first pair that is not two hexadecimal digits; a single
  trailing character is dropped.
\<close>

definition hex_val :: "char \<Rightarrow> nat option" where
  "hex_val c =
     (let n = (of_char c :: nat)
      in if 48 \<le> n \<and> n \<le> 57 then Some (n - 48)
         else if 97 \<le> n \<and> n \<le> 102 then Some (n - 87)
         else if 65 \<le> n \<and> n \<le> 70 then Some (n - 55)
         else None)"

fun from_hex :: "string \<Rightarrow> byte list" where
  "from_hex (a # b # rest) =
     (case hex_val a of
        None \<Rightarrow> []
      | Some h \<Rightarrow>
          (case hex_val b of
             None \<Rightarrow> []
           | Some l \<Rightarrow> word_of_nat (16 * h + l) # from_hex rest))"
| "from_hex _ = []"

text \<open>\<^verbatim>\<open>s.split(sep)\<close> for a one-character separator: always at least one piece.\<close>

fun str_split :: "char \<Rightarrow> string \<Rightarrow> string list" where
  "str_split c [] = [[]]"
| "str_split c (x # xs) =
     (if x = c then [] # str_split c xs
      else (case str_split c xs of
              [] \<Rightarrow> [[x]]
            | w # ws \<Rightarrow> (x # w) # ws))"

section \<open>Credential hashing\<close>

datatype zod_issue = Required string | TooSmall string string

datatype error =
    ERR_INVALID_ARG_TYPE
  | ERR_CRYPTO_TIMING_SAFE_EQUAL_LENGTH
  | ZodError "zod_issue list"

text \<open>
  The key derivation itself is Node's \<^verbatim>\<open>crypto.scrypt\<close>, a library function: it is a
  parameter \<open>kdf\<close> of the model, a function of the password, the salt and the key length.
  What the wrapper adds is the library's argument check: a salt that is \<^verbatim>\<open>undefined\<close>
  (here \<open>None\<close>) is refused with a type error before anything is derived.
\<close>

type_synonym kdf = "string \<Rightarrow> string \<Rightarrow> nat \<Rightarrow> byte list"

definition scryptAsync :: "kdf \<Rightarrow> string \<Rightarrow> string option \<Rightarrow> nat \<Rightarrow> error + byte list" where
  "scryptAsync kdf password salt keylen =
     (case salt of
        None \<Rightarrow> Inl ERR_INVALID_ARG_TYPE
      | Some s \<Rightarrow> Inr (kdf password s keylen))"

text \<open>\<^verbatim>\<open>timingSafeEqual(a, b)\<close> raises when the two buffers differ in length.\<close>

definition timingSafeEqual :: "byte list \<Rightarrow> byte list \<Rightarrow> error + bool" where
  "timingSafeEqual a b =
     (if length a \<noteq> length b then Inl ERR_CRYPTO_TIMING_SAFE_EQUAL_LENGTH
      else Inr (a = b))"

definition hashPassword :: "kdf \<Rightarrow> string \<Rightarrow> rng \<Rightarrow> error + (string \<times> rng)" where
  "hashPassword kdf password r =
     (let (bytes, r') = randomBytes 16 r;
          salt = to_hex bytes
      in case scryptAsync kdf password (Some salt) 64 of
           Inl e \<Rightarrow> Inl e
         | Inr buf \<Rightarrow> Inr (to_hex buf @ ''.'' @ salt, r'))"

text \<open>
  \<^verbatim>\<open>const [hashed, salt] = stored.split(".")\<close>: \<open>hashed\<close> is the first piece, \<open>salt\<close> the
  second one or \<^verbatim>\<open>undefined\<close> when there is none; further pieces are ignored.
\<close>

definition comparePasswords :: "kdf \<Rightarrow> string \<Rightarrow> string \<Rightarrow> error + bool" where
  "comparePasswords kdf supplied stored =
     (case str_split CHR ''.'' stored of
        [] \<Rightarrow> Inl ERR_INVALID_ARG_TYPE
      | hashed # rest \<Rightarrow>
          (let salt = (case rest of [] \<Rightarrow> None | s # _ \<Rightarrow> Some s);
               hashedBuf = from_hex hashed
           in case scryptAsync kdf supplied salt 64 of
                Inl e \<Rightarrow> Inl e
              | Inr suppliedBuf \<Rightarrow> timingSafeEqual hashedBuf suppliedBuf))"

section \<open>Identities and the data-access layer\<close>

text \<open>A row of the \<^verbatim>\<open>users\<close> table. The \<^verbatim>\<open>jsonb\<close> bank details are kept as their text.\<close>

record user =
  user_id :: nat
  username :: string
  email :: string
  password :: string
  fullName :: "string option"
  country :: string
  isAdmin :: bool
  isEmailVerified :: bool
  verificationToken :: "string option"
  verificationTokenExpiry :: "timestamp option"
  bankDetails :: "string option"
  createdAt :: timestamp

text \<open>
  An object that carries some of a user's columns: \<^verbatim>\<open>Partial<User>\<close>, and also a JSON
  request body read as such. \<open>None\<close> is a key that is absent; for a nullable column
  \<open>Some None\<close> is the key present with \<^verbatim>\<open>null\<close>. The primary key and the creation time are
  never written by the operations modelled here and are left out.
\<close>

record user_patch =
  p_username :: "string option"
  p_email :: "string option"
  p_password :: "string option"
  p_fullName :: "string option option"
  p_country :: "string option"
  p_isAdmin :: "bool option"
  p_isEmailVerified :: "bool option"
  p_verificationToken :: "string option option"
  p_verificationTokenExpiry :: "timestamp option option"
  p_bankDetails :: "string option option"

definition empty_patch :: user_patch where
  "empty_patch =
     \<lparr>p_username = None, p_email = None, p_password = None, p_fullName = None,
      p_country = None, p_isAdmin = None, p_isEmailVerified = None,
      p_verificationToken = None, p_verificationTokenExpiry = None,
      p_bankDetails = None\<rparr>"

text \<open>\<^verbatim>\<open>InsertUser\<close>: what \<^verbatim>\<open>insertUserSchema\<close> lets through.\<close>

record insert_user =
  ins_username :: string
  ins_email :: string
  ins_password :: string
  ins_fullName :: "string option option"
  ins_country :: "string option"
  ins_bankDetails :: "string option option"

text \<open>The table in insertion order, and the next value of the \<^verbatim>\<open>serial\<close> key.\<close>

record db =
  users :: "user list"
  next_id :: nat

definition getUser :: "db \<Rightarrow> nat \<Rightarrow> user option" where
  "getUser d i = find (\<lambda>u. user_id u = i) (users d)"

definition getUserByUsername :: "db \<Rightarrow> string \<Rightarrow> user option" where
  "getUserByUsername d name = find (\<lambda>u. username u = name) (users d)"

definition getUserByEmail :: "db \<Rightarrow> string \<Rightarrow> user option" where
  "getUserByEmail d addr = find (\<lambda>u. email u = addr) (users d)"

definition getUserByVerificationToken :: "db \<Rightarrow> string \<Rightarrow> user list" where
  "getUserByVerificationToken d token =
     filter (\<lambda>u. verificationToken u = Some token) (users d)"

text \<open>
  \<^verbatim>\<open>createUser\<close> inserts \<^verbatim>\<open>{...insertUser, isAdmin: false}\<close>; the columns the object does
  not carry take their defaults (\<^verbatim>\<open>NG\<close>, \<^verbatim>\<open>false\<close>, \<^verbatim>\<open>null\<close>, the current time).
\<close>

definition createUser :: "db \<Rightarrow> insert_user \<Rightarrow> timestamp \<Rightarrow> db \<times> user" where
  "createUser d insertUser now =
     (let user =
        \<lparr>user_id = next_id d,
         username = ins_username insertUser,
         email = ins_email insertUser,
         password = ins_password insertUser,
         fullName = (case ins_fullName insertUser of None \<Rightarrow> None | Some v \<Rightarrow> v),
         country = (case ins_country insertUser of None \<Rightarrow> ''NG'' | Some c \<Rightarrow> c),
         isAdmin = False,
         isEmailVerified = False,
         verificationToken = None,
         verificationTokenExpiry = None,
         bankDetails = (case ins_bankDetails insertUser of None \<Rightarrow> None | Some v \<Rightarrow> v),
         createdAt = now\<rparr>
      in (d\<lparr>users := users d @ [user], next_id := Suc (next_id d)\<rparr>, user))"

definition apply_patch :: "user_patch \<Rightarrow> user \<Rightarrow> user" where
  "apply_patch p u =
     u\<lparr>username := (case p_username p of None \<Rightarrow> username u | Some v \<Rightarrow> v),
       email := (case p_email p of None \<Rightarrow> email u | Some v \<Rightarrow> v),
       password := (case p_password p of None \<Rightarrow> password u | Some v \<Rightarrow> v),
       fullName := (case p_fullName p of None \<Rightarrow> fullName u | Some v \<Rightarrow> v),
       country := (case p_country p of None \<Rightarrow> country u | Some v \<Rightarrow> v),
       isAdmin := (case p_isAdmin p of None \<Rightarrow> isAdmin u | Some v \<Rightarrow> v),
       isEmailVerified :=
         (case p_isEmailVerified p of None \<Rightarrow> isEmailVerified u | Some v \<Rightarrow> v),
       verificationToken :=
         (case p_verificationToken p of None \<Rightarrow> verificationToken u | Some v \<Rightarrow> v),
       verificationTokenExpiry :=
         (case p_verificationTokenExpiry p of
            None \<Rightarrow> verificationTokenExpiry u
          | Some v \<Rightarrow> v),
       bankDetails := (case p_bankDetails p of None \<Rightarrow> bankDetails u | Some v \<Rightarrow> v)\<rparr>"

text \<open>
  \<^verbatim>\<open>updateUser\<close> sets the given columns on the rows with that key and returns the first
  row it changed, \<^verbatim>\<open>undefined\<close> when there is none.
\<close>

definition updateUser :: "db \<Rightarrow> nat \<Rightarrow> user_patch \<Rightarrow> db \<times> user option" where
  "updateUser d i userData =
     (let rows = map (\<lambda>u. if user_id u = i then apply_patch userData u else u) (users d)
      in (d\<lparr>users := rows\<rparr>, find (\<lambda>u. user_id u = i) rows))"

section \<open>Requests and responses\<close>

datatype json = JNull | JBool bool | JNum int | JStr string | JDate timestamp | JRaw string

type_synonym json_object = "(string \<times> json) list"

definition json_opt :: "('a \<Rightarrow> json) \<Rightarrow> 'a option \<Rightarrow> json" where
  "json_opt f v = (case v of None \<Rightarrow> JNull | Some x \<Rightarrow> f x)"

text \<open>A row as the object the data-access layer hands to the handlers.\<close>

definition user_object :: "user \<Rightarrow> json_object" where
  "user_object u =
     [(''id'', JNum (int (user_id u))),
      (''username'', JStr (username u)),
      (''email'', JStr (email u)),
      (''password'', JStr (password u)),
      (''fullName'', json_opt JStr (fullName u)),
      (''country'', JStr (country u)),
      (''isAdmin'', JBool (isAdmin u)),
      (''isEmailVerified'', JBool (isEmailVerified u)),
      (''verificationToken'', json_opt JStr (verificationToken u)),
      (''verificationTokenExpiry'', json_opt JDate (verificationTokenExpiry u)),
      (''bankDetails'', json_opt JRaw (bankDetails u)),
      (''createdAt'', JDate (createdAt u))]"

text \<open>\<^verbatim>\<open>const { password, ...userWithoutPassword } = user\<close>\<close>

definition without_password :: "json_object \<Rightarrow> json_object" where
  "without_password obj = filter (\<lambda>kv. fst kv \<noteq> ''password'') obj"

text \<open>
  A response body: a JSON object, the message the validation library formats from the
  issues it found, a status line alone, or one of the HTML pages, kept as its title, its
  heading and its first paragraph.
\<close>

datatype body =
    Json json_object
  | ValidationMessage "zod_issue list"
  | StatusText
  | Html string string string

text \<open>
  What a middleware or handler does with a request: hand over to the next one, hand an
  error to the framework's error handler (\<^verbatim>\<open>next(err)\<close>), or answer with a status and a body.
\<close>

datatype outcome = Next | NextErr error | Res nat body

definition message :: "string \<Rightarrow> body" where
  "message m = Json [(''message'', JStr m)]"

text \<open>
  The session of one client holds the key of the logged-in identity; the framework loads
  that identity from the store at the start of each request, and the request counts as
  authenticated when it found one.
\<close>

type_synonym session = "nat option"

definition req_user :: "db \<Rightarrow> session \<Rightarrow> user option" where
  "req_user d s = (case s of None \<Rightarrow> None | Some i \<Rightarrow> getUser d i)"

section \<open>Authorization gates\<close>

definition requireAuth :: "user option \<Rightarrow> outcome" where
  "requireAuth u =
     (case u of
        None \<Rightarrow> Res 401 (message ''Unauthorized'')
      | Some _ \<Rightarrow> Next)"

definition requireAdmin :: "user option \<Rightarrow> outcome" where
  "requireAdmin u =
     (case u of
        None \<Rightarrow> Res 403 (message ''Forbidden'')
      | Some user \<Rightarrow> if \<not> isAdmin user then Res 403 (message ''Forbidden'') else Next)"

text \<open>\<^verbatim>\<open>requireAdminToken\<close> looks only at whether the cookie is there.\<close>

definition requireAdminToken :: "string option \<Rightarrow> outcome" where
  "requireAdminToken adminToken =
     (case adminToken of
        None \<Rightarrow> Res 401 (message ''Admin authentication required'')
      | Some t \<Rightarrow>
          if t = [] then Res 401 (message ''Admin authentication required'') else Next)"

text \<open>
  A route with a gate in front: the operation runs only when the gate hands over;
  otherwise the gate's answer is the response and the store is left as it was.
\<close>

definition guarded :: "outcome \<Rightarrow> db \<Rightarrow> (db \<Rightarrow> db \<times> outcome) \<Rightarrow> db \<times> outcome" where
  "guarded gate d operation = (case gate of Next \<Rightarrow> operation d | r \<Rightarrow> (d, r))"

section \<open>Verification tokens\<close>

definition generateVerificationToken :: "rng \<Rightarrow> string \<times> rng" where
  "generateVerificationToken r = (let (bytes, r') = randomBytes 32 r in (to_hex bytes, r'))"

section \<open>Request validation\<close>

text \<open>
  \<^verbatim>\<open>insertUserSchema\<close> requires the handle, the address and the password, lets the display
  name, the country and the bank details through when they are there, and drops every
  other key of the body, the administrator flag among them.
\<close>

definition missing :: "string \<Rightarrow> 'a option \<Rightarrow> zod_issue list" where
  "missing key v = (case v of None \<Rightarrow> [Required key] | Some _ \<Rightarrow> [])"

definition insertUserSchema_parse :: "user_patch \<Rightarrow> error + insert_user" where
  "insertUserSchema_parse b =
     (case (p_username b, p_email b, p_password b) of
        (Some u, Some e, Some p) \<Rightarrow>
          Inr \<lparr>ins_username = u, ins_email = e, ins_password = p,
               ins_fullName = p_fullName b, ins_country = p_country b,
               ins_bankDetails = p_bankDetails b\<rparr>
      | _ \<Rightarrow>
          Inl (ZodError (missing ''username'' (p_username b) @ missing ''email'' (p_email b)
                         @ missing ''password'' (p_password b))))"

record login_body =
  l_username :: "string option"
  l_password :: "string option"

definition min_length :: "string \<Rightarrow> nat \<Rightarrow> string \<Rightarrow> string option \<Rightarrow> zod_issue list" where
  "min_length key n msg v =
     (case v of
        None \<Rightarrow> [Required key]
      | Some s \<Rightarrow> if length s < n then [TooSmall key msg] else [])"

definition loginSchema_parse :: "login_body \<Rightarrow> error + (string \<times> string)" where
  "loginSchema_parse b =
     (let issues =
        min_length ''username'' 3 ''Username must be at least 3 characters'' (l_username b)
        @ min_length ''password'' 6 ''Password must be at least 6 characters'' (l_password b)
      in case (l_username b, l_password b) of
           (Some u, Some p) \<Rightarrow> if issues = [] then Inr (u, p) else Inl (ZodError issues)
         | _ \<Rightarrow> Inl (ZodError issues))"

text \<open>
  The \<^verbatim>\<open>catch\<close> of the register and login handlers: a validation error is answered with
  status 400, anything else goes to the error handler.
\<close>

definition on_error :: "error \<Rightarrow> outcome" where
  "on_error e = (case e of ZodError issues \<Rightarrow> Res 400 (ValidationMessage issues) | _ \<Rightarrow> NextErr e)"

section \<open>Session and identity layer\<close>

text \<open>The three ways the strategy's verify callback calls \<^verbatim>\<open>done\<close>.\<close>

datatype strategy_result = Done_error error | Done_fail string | Done_user user

definition local_strategy :: "kdf \<Rightarrow> db \<Rightarrow> string \<Rightarrow> string \<Rightarrow> strategy_result" where
  "local_strategy kdf d name pw =
     (case getUserByUsername d name of
        None \<Rightarrow> Done_fail ''Invalid username or password''
      | Some user \<Rightarrow>
          (case comparePasswords kdf pw (password user) of
             Inl e \<Rightarrow> Done_error e
           | Inr ok \<Rightarrow>
               if \<not> ok then Done_fail ''Invalid username or password''
               else Done_user user))"

definition login :: "kdf \<Rightarrow> db \<Rightarrow> session \<Rightarrow> login_body \<Rightarrow> session \<times> outcome" where
  "login kdf d s b =
     (case loginSchema_parse b of
        Inl e \<Rightarrow> (s, on_error e)
      | Inr (name, pw) \<Rightarrow>
          (case local_strategy kdf d name pw of
             Done_error err \<Rightarrow> (s, NextErr err)
           | Done_fail info \<Rightarrow>
               (s, Res 401 (message (if info = [] then ''Invalid credentials'' else info)))
           | Done_user user \<Rightarrow>
               (Some (user_id user), Res 200 (Json (without_password (user_object user))))))"

definition current_user :: "user option \<Rightarrow> outcome" where
  "current_user u =
     (case u of
        None \<Rightarrow> Res 401 StatusText
      | Some user \<Rightarrow> Res 200 (Json (without_password (user_object user))))"

definition register ::
  "kdf \<Rightarrow> timestamp \<Rightarrow> rng \<Rightarrow> db \<Rightarrow> session \<Rightarrow> user_patch \<Rightarrow> (db \<times> session) \<times> outcome" where
  "register kdf now r d s b =
     (case insertUserSchema_parse b of
        Inl e \<Rightarrow> ((d, s), on_error e)
      | Inr userData \<Rightarrow>
          (case getUserByUsername d (ins_username userData) of
             Some _ \<Rightarrow> ((d, s), Res 400 (message ''Username already exists''))
           | None \<Rightarrow>
               (case getUserByEmail d (ins_email userData) of
                  Some _ \<Rightarrow> ((d, s), Res 400 (message ''Email already exists''))
                | None \<Rightarrow>
                    (let (token, r1) = generateVerificationToken r;
                         expiry = now + 24 * 60 * 60 * 1000
                     in case hashPassword kdf (ins_password userData) r1 of
                          Inl e \<Rightarrow> ((d, s), on_error e)
                        | Inr (hashed, r2) \<Rightarrow>
                            (let (d1, user) =
                                   createUser d (userData\<lparr>ins_password := hashed\<rparr>) now;
                                 (d2, updated) =
                                   updateUser d1 (user_id user)
                                     (empty_patch
                                        \<lparr>p_verificationToken := Some (Some token),
                                         p_verificationTokenExpiry := Some (Some expiry),
                                         p_isEmailVerified := Some False\<rparr>)
                             in ((d2, Some (user_id user)),
                                 Res 201
                                   (Json (without_password (user_object user)
                                          @ [(''message'',
                                              JStr ''Account created successfully. Please check your email to verify your account.'')]))))))))"

definition resend_verification :: "timestamp \<Rightarrow> rng \<Rightarrow> db \<Rightarrow> session \<Rightarrow> db \<times> outcome" where
  "resend_verification now r d s =
     (case req_user d s of
        None \<Rightarrow>
          (d, Res 401 (message ''You must be logged in to request a verification email''))
      | Some user \<Rightarrow>
          if isEmailVerified user
          then (d, Res 400 (message ''Your email is already verified''))
          else
            (let (token, r1) = generateVerificationToken r;
                 expiry = now + 24 * 60 * 60 * 1000;
                 (d1, updated) =
                   updateUser d (user_id user)
                     (empty_patch
                        \<lparr>p_verificationToken := Some (Some token),
                         p_verificationTokenExpiry := Some (Some expiry)\<rparr>)
             in (d1,
                 Res 200
                   (message ''Verification email sent successfully. Please check your inbox.''))))"

definition invalid_link_page :: body where
  "invalid_link_page =
     Html ''Email Verification Failed'' ''Invalid Verification Link''
       ''The verification link you clicked is invalid or has expired.''"

definition expired_link_page :: body where
  "expired_link_page =
     Html ''Email Verification Failed'' ''Verification Link Expired''
       ''The verification link has expired. Please request a new one.''"

definition verified_page :: body where
  "verified_page =
     Html ''Email Verified Successfully'' ''Email Verified Successfully!''
       ''Your email has been verified. You can now enjoy full access to BetCode Marketplace.''"

text \<open>
  The \<^verbatim>\<open>token\<close> query parameter is \<open>None\<close> when it is absent or not a string. An expiry
  that is \<^verbatim>\<open>null\<close> is not checked.
\<close>

definition verify_email :: "timestamp \<Rightarrow> db \<Rightarrow> string option \<Rightarrow> db \<times> outcome" where
  "verify_email now d q =
     (case q of
        None \<Rightarrow> (d, Res 400 invalid_link_page)
      | Some token \<Rightarrow>
          if token = [] then (d, Res 400 invalid_link_page)
          else
            (case getUserByVerificationToken d token of
               [] \<Rightarrow> (d, Res 404 invalid_link_page)
             | user # _ \<Rightarrow>
                 if (case verificationTokenExpiry user of
                       None \<Rightarrow> False
                     | Some expiry \<Rightarrow> expiry < now)
                 then (d, Res 400 expired_link_page)
                 else
                   (let (d1, updated) =
                          updateUser d (user_id user)
                            (empty_patch
                               \<lparr>p_isEmailVerified := Some True,
                                p_verificationToken := Some None,
                                p_verificationTokenExpiry := Some None\<rparr>)
                    in (d1, Res 200 verified_page))))"

section \<open>Profile and administration routes\<close>

text \<open>Only the two allowed keys of the body reach the store.\<close>

definition update_profile :: "db \<Rightarrow> session \<Rightarrow> user_patch \<Rightarrow> db \<times> outcome" where
  "update_profile d s b =
     guarded (requireAuth (req_user d s)) d
       (\<lambda>d. case req_user d s of
               None \<Rightarrow> (d, Res 500 (message ''Failed to update profile''))
             | Some me \<Rightarrow>
                 (let updates =
                        empty_patch\<lparr>p_fullName := p_fullName b, p_bankDetails := p_bankDetails b\<rparr>;
                      (d1, updatedUser) = updateUser d (user_id me) updates
                  in case updatedUser of
                       None \<Rightarrow> (d1, Res 404 (message ''User not found''))
                     | Some u \<Rightarrow> (d1, Res 200 (Json (without_password (user_object u))))))"

text \<open>The administrative update hands the whole body to the store.\<close>

definition admin_update_user :: "string option \<Rightarrow> db \<Rightarrow> nat \<Rightarrow> user_patch \<Rightarrow> db \<times> outcome" where
  "admin_update_user adminToken d userId b =
     guarded (requireAdminToken adminToken) d
       (\<lambda>d. let (d1, updatedUser) = updateUser d userId b
            in case updatedUser of
                 None \<Rightarrow> (d1, Res 404 (message ''User not found''))
               | Some u \<Rightarrow> (d1, Res 200 (Json (user_object u))))"

section \<open>Properties of the model\<close>

text \<open>A token and its expiry are both there or both absent.\<close>

definition token_paired :: "user \<Rightarrow> bool" where
  "token_paired u \<longleftrightarrow> (verificationToken u = None) = (verificationTokenExpiry u = None)"

definition all_paired :: "db \<Rightarrow> bool" where
  "all_paired d \<longleftrightarrow> list_all token_paired (users d)"

definition is_hex :: "string \<Rightarrow> bool" where
  "is_hex s \<longleftrightarrow> list_all (\<lambda>c. c \<in> set ''0123456789abcdef'') s"

definition has_key :: "string \<Rightarrow> body \<Rightarrow> bool" where
  "has_key k b = (case b of Json obj \<Rightarrow> k \<in> set (map fst obj) | _ \<Rightarrow> False)"

text \<open>
  A key derivation to run the model on concrete inputs: it repeats the bytes of the
  password and the salt up to the length asked for. It stands for no property of scrypt.
\<close>

definition sample_kdf :: kdf where
  "sample_kdf pw salt keylen =
     take keylen (concat (replicate keylen (map of_char (pw @ salt) @ [0])))"

definition status_of :: "outcome \<Rightarrow> nat option" where
  "status_of out = (case out of Res code _ \<Rightarrow> Some code | _ \<Rightarrow> None)"

definition outcome_has_key :: "string \<Rightarrow> outcome \<Rightarrow> bool" where
  "outcome_has_key k out = (case out of Res _ b \<Rightarrow> has_key k b | _ \<Rightarrow> False)"

text \<open>
  The token and expiry a handler stores when it draws the token from the random source
  \<open>r\<close> at time \<open>now\<close>.
\<close>

definition issued :: "timestamp \<Rightarrow> rng \<Rightarrow> user \<Rightarrow> bool" where
  "issued now r u \<longleftrightarrow>
     verificationToken u = Some (to_hex (stake 32 r)) \<and>
     verificationTokenExpiry u = Some (now + 86400000)"

text \<open>The same store with every stored verifier replaced.\<close>

definition with_passwords :: "(user \<Rightarrow> string) \<Rightarrow> db \<Rightarrow> db" where
  "with_passwords f d = d\<lparr>users := map (\<lambda>u. u\<lparr>password := f u\<rparr>) (users d)\<rparr>"

subsection \<open>Concrete inputs\<close>

text \<open>
  An unverified identity whose token ran out at time 5000 and whose verifier is well
  formed (a 64-byte key and a salt), and a verified one whose stored verifier has no dot.
\<close>

definition alice :: user where
  "alice =
     \<lparr>user_id = 101, username = ''alice'', email = ''alice@example.com'',
      password = replicate 128 (CHR ''0'') @ ''.0a0b'',
      fullName = None, country = ''NG'', isAdmin = False, isEmailVerified = False,
      verificationToken = Some ''c0ffee'', verificationTokenExpiry = Some 5000,
      bankDetails = None, createdAt = 1000\<rparr>"

definition bob :: user where
  "bob =
     \<lparr>user_id = 102, username = ''bob'', email = ''bob@example.com'',
      password = ''5f4dcc3b5aa765d6'',
      fullName = Some ''Bob'', country = ''GH'', isAdmin = False, isEmailVerified = True,
      verificationToken = None, verificationTokenExpiry = None,
      bankDetails = None, createdAt = 2000\<rparr>"

definition sample_db :: db where
  "sample_db = \<lparr>users = [alice, bob], next_id = 103\<rparr>"

definition carol_body :: user_patch where
  "carol_body =
     empty_patch
       \<lparr>p_username := Some ''carol'', p_email := Some ''carol@example.com'',
        p_password := Some ''secret123'', p_isAdmin := Some True\<rparr>"

text \<open>
  An identity whose stored verifier is the one hashing \<^verbatim>\<open>secret123\<close> with the salt
  \<^verbatim>\<open>0a0b\<close> gives under \<open>sample_kdf\<close>, and the verifier the same password gives with
  another salt.
\<close>

definition dora :: user where
  "dora =
     \<lparr>user_id = 201, username = ''dora'', email = ''dora@example.com'',
      password = to_hex (sample_kdf ''secret123'' ''0a0b'' 64) @ ''.'' @ ''0a0b'',
      fullName = None, country = ''ZA'', isAdmin = False, isEmailVerified = True,
      verificationToken = None, verificationTokenExpiry = None,
      bankDetails = None, createdAt = 3000\<rparr>"

definition login_db :: db where
  "login_db = \<lparr>users = [dora], next_id = 202\<rparr>"

definition rehashed :: "user \<Rightarrow> string" where
  "rehashed u = to_hex (sample_kdf ''secret123'' ''0c0d'' 64) @ ''.'' @ ''0c0d''"

definition dora_login :: login_body where
  "dora_login = \<lparr>l_username = Some ''dora'', l_password = Some ''secret123''\<rparr>"

section \<open>Hexadecimal text\<close>

lemma nibble_cases:
  "n < 16 \<Longrightarrow> n \<in> {0, 1, 2, 3, 4, 5, 6, 7, 8, 9, 10, 11, 12, 13, 14, 15::nat}"
  by (simp; arith)

lemma hex_val_hex_digit: "n < 16 \<Longrightarrow> hex_val (hex_digit n) = Some n"
  by (drule nibble_cases) (auto simp add: hex_val_def hex_digit_def)

lemma hex_digit_in_alphabet: "hex_digit n \<in> set ''0123456789abcdef''"
proof -
  have "n mod 16 < 16" by simp
  then have "n mod 16 \<in> {0, 1, 2, 3, 4, 5, 6, 7, 8, 9, 10, 11, 12, 13, 14, 15}"
    by (rule nibble_cases)
  then show ?thesis
    unfolding hex_digit_def by auto
qed

lemma hex_digit_not_dot: "hex_digit n \<noteq> CHR ''.''"
  using hex_digit_in_alphabet [of n] by auto

lemma from_hex_of_byte: "from_hex (hex_of_byte b @ rest) = b # from_hex rest"
proof -
  have "unat b < 2 ^ LENGTH(8)"
    by (rule unsigned_less)
  then have "unat b < 256"
    by simp
  then have "unat b div 16 < 16"
    by arith
  then show ?thesis
    by (simp add: hex_of_byte_def hex_val_hex_digit)
qed

lemma from_hex_to_hex: "from_hex (to_hex bs) = bs"
  by (induction bs) (simp_all add: to_hex_def from_hex_of_byte)

lemma to_hex_no_dot: "CHR ''.'' \<notin> set (to_hex bs)"
  by (induction bs) (simp_all add: to_hex_def hex_of_byte_def hex_digit_not_dot [symmetric])

lemma length_to_hex: "length (to_hex bs) = 2 * length bs"
  by (induction bs) (simp_all add: to_hex_def hex_of_byte_def)

lemma is_hex_to_hex: "is_hex (to_hex bs)"
  unfolding is_hex_def to_hex_def
  by (induction bs) (simp_all add: hex_of_byte_def hex_digit_in_alphabet del: list.set)

lemma str_split_no_sep: "c \<notin> set s \<Longrightarrow> str_split c s = [s]"
  by (induction s) auto

lemma str_split_at_first: "c \<notin> set a \<Longrightarrow> str_split c (a @ c # b) = a # str_split c b"
  by (induction a) auto

section \<open>Credential hashing: hash, then verify\<close>

text \<open>
  C1. Whatever the password, the key derivation and the bytes the random source gives for
  the salt, hashing returns a verifier, and checking the same password against that
  verifier returns true: the verifier splits at its only dot into the key's hexadecimal
  text and the salt, the text decodes to the key, and the key derived again from the
  stored salt is the same.
\<close>

theorem verify_after_hash:
  "\<exists>v r'. hashPassword kdf p r = Inr (v, r') \<and> comparePasswords kdf p v = Inr True"
proof -
  obtain bytes r' where rb: "randomBytes 16 r = (bytes, r')"
    by (cases "randomBytes 16 r")
  let ?salt = "to_hex bytes"
  let ?key = "kdf p ?salt 64"
  have h: "hashPassword kdf p r = Inr (to_hex ?key @ ''.'' @ ?salt, r')"
    by (simp add: hashPassword_def rb scryptAsync_def Let_def)
  have sp: "str_split CHR ''.'' (to_hex ?key @ CHR ''.'' # ?salt) = [to_hex ?key, ?salt]"
    by (simp add: str_split_at_first [OF to_hex_no_dot] str_split_no_sep [OF to_hex_no_dot])
  have "comparePasswords kdf p (to_hex ?key @ ''.'' @ ?salt) = Inr True"
    by (simp add: comparePasswords_def sp scryptAsync_def from_hex_to_hex
        timingSafeEqual_def Let_def)
  with h show ?thesis by blast
qed

text \<open>
  C2. The claim is that a stored verifier without a dot makes the check return false and
  never raise. At the verifier \<^verbatim>\<open>5f4dcc3b5aa765d6\<close> the check does not return false: the
  salt is \<^verbatim>\<open>undefined\<close> and the key derivation refuses it.
\<close>

theorem malformed_verifier_not_false:
  "comparePasswords sample_kdf ''secret123'' ''5f4dcc3b5aa765d6'' = Inl ERR_INVALID_ARG_TYPE \<and>
   comparePasswords sample_kdf ''secret123'' ''5f4dcc3b5aa765d6'' \<noteq> Inr False"
  by (simp add: comparePasswords_def scryptAsync_def)

text \<open>
  C2, as the code has it. For every supplied password and every stored verifier without a
  dot, the check raises the key derivation's type error. The login strategy catches it and
  passes it on as an error, so a login for that identity ends in the error handler and
  not in the invalid-credential answer; the session is left as it was.
\<close>

theorem malformed_verifier_raises:
  assumes "CHR ''.'' \<notin> set (password user)"
    and "getUserByUsername d name = Some user"
    and "loginSchema_parse b = Inr (name, pw)"
  shows "comparePasswords kdf pw (password user) = Inl ERR_INVALID_ARG_TYPE \<and>
         local_strategy kdf d name pw = Done_error ERR_INVALID_ARG_TYPE \<and>
         login kdf d s b = (s, NextErr ERR_INVALID_ARG_TYPE)"
proof -
  have c: "comparePasswords kdf pw (password user) = Inl ERR_INVALID_ARG_TYPE"
    using assms(1) by (simp add: comparePasswords_def str_split_no_sep scryptAsync_def)
  then have l: "local_strategy kdf d name pw = Done_error ERR_INVALID_ARG_TYPE"
    using assms(2) by (simp add: local_strategy_def)
  with c assms(3) show ?thesis
    by (simp add: login_def)
qed

section \<open>The sample store\<close>

lemma sample_lookup:
  "getUserByUsername sample_db ''alice'' = Some alice"
  "getUserByUsername sample_db ''bob'' = Some bob"
  "getUserByUsername sample_db ''dave'' = None"
  "getUserByUsername sample_db ''carol'' = None"
  "getUserByEmail sample_db ''carol@example.com'' = None"
  "getUser sample_db 101 = Some alice"
  "getUser sample_db 102 = Some bob"
  by (simp_all add: getUserByUsername_def getUserByEmail_def getUser_def sample_db_def
      alice_def bob_def)

lemma sample_tokens:
  "getUserByVerificationToken sample_db ''c0ffee'' = [alice]"
  "getUserByVerificationToken sample_db ''dead'' = []"
  by (simp_all add: getUserByVerificationToken_def sample_db_def alice_def bob_def)

lemma sample_paired: "all_paired sample_db"
  by (simp add: all_paired_def token_paired_def sample_db_def alice_def bob_def)

lemma sample_bodies:
  "loginSchema_parse \<lparr>l_username = Some ''dave'', l_password = Some ''secret123''\<rparr> =
     Inr (''dave'', ''secret123'')"
  "loginSchema_parse \<lparr>l_username = Some ''alice'', l_password = Some ''wrongpass''\<rparr> =
     Inr (''alice'', ''wrongpass'')"
  "loginSchema_parse \<lparr>l_username = Some ''bob'', l_password = Some ''secret123''\<rparr> =
     Inr (''bob'', ''secret123'')"
  by (simp_all add: loginSchema_parse_def min_length_def)


theorem malformed_verifier_raises_witness:
  "CHR ''.'' \<notin> set (password bob) \<and>
   login sample_kdf sample_db None \<lparr>l_username = Some ''bob'', l_password = Some ''secret123''\<rparr> =
     (None, NextErr ERR_INVALID_ARG_TYPE)"
proof -
  have h: "CHR ''.'' \<notin> set (password bob)"
    by (simp add: bob_def)
  show ?thesis
    using h malformed_verifier_raises [OF h sample_lookup(2) sample_bodies(3), of sample_kdf None]
    by simp
qed

section \<open>Login failures\<close>




section \<open>Updates of the store\<close>

lemma user_id_apply_patch [simp]: "user_id (apply_patch p u) = user_id u"
  by (simp add: apply_patch_def)

lemma users_updateUser:
  "users (fst (updateUser d i p)) =
     map (\<lambda>u. if user_id u = i then apply_patch p u else u) (users d)"
  by (simp add: updateUser_def Let_def)

lemma find_patched:
  "find (\<lambda>u. user_id u = i) (map (\<lambda>u. if user_id u = i then apply_patch p u else u) xs) =
     map_option (apply_patch p) (find (\<lambda>u. user_id u = i) xs)"
  by (induction xs) simp_all

lemma getUser_updateUser:
  "getUser (fst (updateUser d i p)) i = map_option (apply_patch p) (getUser d i)"
  by (simp add: getUser_def users_updateUser find_patched)

lemma snd_updateUser:
  "snd (updateUser d i p) = map_option (apply_patch p) (getUser d i)"
  by (simp add: updateUser_def Let_def getUser_def find_patched)

lemma getUser_key: "getUser d i = Some u \<Longrightarrow> user_id u = i"
  by (auto simp add: getUser_def find_Some_iff)

lemma hashPassword_returns:
  "hashPassword kdf p r =
     Inr (to_hex (kdf p (to_hex (stake 16 r)) 64) @ ''.'' @ to_hex (stake 16 r), sdrop 16 r)"
  by (simp add: hashPassword_def randomBytes_def scryptAsync_def Let_def)

lemma generateVerificationToken_eq:
  "generateVerificationToken r = (to_hex (stake 32 r), sdrop 32 r)"
  by (simp add: generateVerificationToken_def randomBytes_def)

section \<open>Token and expiry go together\<close>

lemma all_paired_updateUser:
  assumes "all_paired d" and "\<And>u. token_paired u \<Longrightarrow> token_paired (apply_patch p u)"
  shows "all_paired (fst (updateUser d i p))"
  using assms by (auto simp add: all_paired_def users_updateUser list_all_iff)

lemma paired_set_both:
  "p_verificationToken p = Some (Some t) \<Longrightarrow> p_verificationTokenExpiry p = Some (Some e)
     \<Longrightarrow> token_paired (apply_patch p u)"
  by (simp add: token_paired_def apply_patch_def)

lemma paired_clear_both:
  "p_verificationToken p = Some None \<Longrightarrow> p_verificationTokenExpiry p = Some None
     \<Longrightarrow> token_paired (apply_patch p u)"
  by (simp add: token_paired_def apply_patch_def)

lemma paired_untouched:
  "p_verificationToken p = None \<Longrightarrow> p_verificationTokenExpiry p = None
     \<Longrightarrow> token_paired u \<Longrightarrow> token_paired (apply_patch p u)"
  by (simp add: token_paired_def apply_patch_def)

lemma all_paired_createUser: "all_paired d \<Longrightarrow> all_paired (fst (createUser d ins now))"
  by (simp add: all_paired_def createUser_def Let_def token_paired_def)

lemma register_paired: "all_paired d \<Longrightarrow> all_paired (fst (fst (register kdf now r d s b)))"
  by (auto simp add: register_def hashPassword_returns generateVerificationToken_eq Let_def
      split_def empty_patch_def
      intro!: all_paired_updateUser all_paired_createUser paired_set_both
      split: sum.splits option.splits)

lemma resend_paired: "all_paired d \<Longrightarrow> all_paired (fst (resend_verification now r d s))"
  by (auto simp add: resend_verification_def generateVerificationToken_eq Let_def
      split_def empty_patch_def
      intro!: all_paired_updateUser paired_set_both
      split: option.splits)

lemma verify_paired: "all_paired d \<Longrightarrow> all_paired (fst (verify_email now d q))"
  by (auto simp add: verify_email_def Let_def split_def empty_patch_def
      intro!: all_paired_updateUser paired_clear_both
      split: option.splits list.splits)

lemma profile_paired: "all_paired d \<Longrightarrow> all_paired (fst (update_profile d s b))"
  by (auto simp add: update_profile_def guarded_def requireAuth_def Let_def split_def
      empty_patch_def
      intro!: all_paired_updateUser paired_untouched
      split: option.splits outcome.splits)

text \<open>
  C4. The claim counts the administrative user update among the operations that keep a
  token and its expiry together. That update writes whichever columns its body carries:
  on the sample store, where every identity has both or neither, a body that sets only
  \<^verbatim>\<open>verificationToken\<close> to \<^verbatim>\<open>null\<close> leaves the first identity with an expiry and no token.
\<close>

theorem admin_update_breaks_pairing:
  "all_paired sample_db \<and>
   \<not> all_paired
       (fst (admin_update_user (Some ''x'') sample_db 101
               (empty_patch\<lparr>p_verificationToken := Some None\<rparr>)))"
  by (simp add: all_paired_def token_paired_def sample_db_def alice_def bob_def
      admin_update_user_def guarded_def requireAdminToken_def updateUser_def apply_patch_def
      empty_patch_def Let_def)

text \<open>
  C4, as the code has it. Registration, resend-verification, email verification and
  profile update each keep the pairing: when every identity of the store has its token
  and its expiry both \<^verbatim>\<open>null\<close> or both set before the operation, the same holds of the
  store after it, whatever the request and whether it succeeds or not.
\<close>

theorem token_pairing_preserved:
  assumes "all_paired d"
  shows "all_paired (fst (fst (register kdf now1 r1 d s1 b1))) \<and>
         all_paired (fst (resend_verification now2 r2 d s2)) \<and>
         all_paired (fst (verify_email now3 d q)) \<and>
         all_paired (fst (update_profile d s4 b4))"
  using assms by (simp add: register_paired resend_paired verify_paired profile_paired)

theorem token_pairing_preserved_witness:
  "all_paired sample_db \<and>
   all_paired (fst (fst (register sample_kdf 7000 (sconst 7) sample_db None carol_body))) \<and>
   all_paired (fst (resend_verification 7000 (sconst 7) sample_db (Some 101))) \<and>
   all_paired (fst (verify_email 4000 sample_db (Some ''c0ffee''))) \<and>
   all_paired (fst (update_profile sample_db (Some 102) (empty_patch\<lparr>p_fullName := Some None\<rparr>)))"
  using sample_paired
    token_pairing_preserved [OF sample_paired, of sample_kdf 7000 "sconst 7" None carol_body
      7000 "sconst 7" "Some 101" 4000 "Some ''c0ffee''" "Some 102"
      "empty_patch\<lparr>p_fullName := Some None\<rparr>"]
  by simp

section \<open>Issued tokens\<close>

lemma status_of_on_error: "status_of (on_error e) \<noteq> Some 201"
  by (cases e) (simp_all add: on_error_def status_of_def)

lemma register_accepts:
  assumes "status_of (snd (register kdf now r d s b)) = Some 201"
  obtains userData where "insertUserSchema_parse b = Inr userData"
    and "getUserByUsername d (ins_username userData) = None"
    and "getUserByEmail d (ins_email userData) = None"
proof (cases "insertUserSchema_parse b")
  case (Inl e)
  with assms show ?thesis
    by (simp add: register_def status_of_on_error)
next
  case (Inr userData)
  show ?thesis
  proof (cases "getUserByUsername d (ins_username userData)")
    case (Some u)
    with assms Inr show ?thesis
      by (simp add: register_def status_of_def)
  next
    case None
    show ?thesis
    proof (cases "getUserByEmail d (ins_email userData)")
      case (Some u)
      with assms Inr None show ?thesis
        by (simp add: register_def status_of_def)
    next
      case None': None
      from Inr None None' show ?thesis
        by (rule that)
    qed
  qed
qed

lemma register_created:
  assumes "status_of (snd (register kdf now r d s b)) = Some 201"
  shows "users (fst (fst (register kdf now r d s b))) \<noteq> [] \<and>
         user_id (last (users (fst (fst (register kdf now r d s b))))) = next_id d \<and>
         issued now r (last (users (fst (fst (register kdf now r d s b)))))"
proof -
  from assms obtain userData where "insertUserSchema_parse b = Inr userData"
    and "getUserByUsername d (ins_username userData) = None"
    and "getUserByEmail d (ins_email userData) = None"
    by (rule register_accepts)
  then show ?thesis
    by (simp add: register_def hashPassword_returns generateVerificationToken_eq Let_def
        split_def users_updateUser createUser_def issued_def apply_patch_def empty_patch_def)
qed

lemma issued_patch:
  "p_verificationToken p = Some (Some (to_hex (stake 32 r))) \<Longrightarrow>
   p_verificationTokenExpiry p = Some (Some (now + 86400000)) \<Longrightarrow>
   issued now r (apply_patch p u)"
  by (simp add: issued_def apply_patch_def)

text \<open>
  C5. A registration that answers 201 at time \<open>now\<close> with random source \<open>r\<close> leaves the
  identity it created, the last row of the table, with the token that is the hexadecimal
  text of the first 32 bytes of \<open>r\<close> and with the expiry \<open>now + 86400000\<close>, 24 hours in
  milliseconds. A resend that answers 200 leaves the caller's identity with the same kind
  of pair. Such a token has 64 characters, all of them hexadecimal digits, and stands for
  256 bits.
\<close>

theorem issued_token_and_expiry:
  "(status_of (snd (register kdf now r d s b)) = Some 201 \<longrightarrow>
      users (fst (fst (register kdf now r d s b))) \<noteq> [] \<and>
      user_id (last (users (fst (fst (register kdf now r d s b))))) = next_id d \<and>
      issued now r (last (users (fst (fst (register kdf now r d s b)))))) \<and>
   (status_of (snd (resend_verification now' r' d' s')) = Some 200 \<longrightarrow>
      (\<exists>u. req_user (fst (resend_verification now' r' d' s')) s' = Some u \<and>
           issued now' r' u)) \<and>
   length (to_hex (stake 32 r)) = 64 \<and> is_hex (to_hex (stake 32 r)) \<and>
   length (stake 32 r) * 8 = 256"
proof -
  have reg: "users (fst (fst (register kdf now r d s b))) \<noteq> [] \<and>
      user_id (last (users (fst (fst (register kdf now r d s b))))) = next_id d \<and>
      issued now r (last (users (fst (fst (register kdf now r d s b)))))"
    if "status_of (snd (register kdf now r d s b)) = Some 201"
    using that by (rule register_created)
  have res: "\<exists>u. req_user (fst (resend_verification now' r' d' s')) s' = Some u \<and>
      issued now' r' u"
    if h: "status_of (snd (resend_verification now' r' d' s')) = Some 200"
  proof -
    let ?p = "empty_patch
                \<lparr>p_verificationToken := Some (Some (to_hex (stake 32 r'))),
                 p_verificationTokenExpiry := Some (Some (now' + 86400000))\<rparr>"
    from h obtain me where me: "req_user d' s' = Some me" and nv: "\<not> isEmailVerified me"
      by (auto simp add: resend_verification_def status_of_def message_def
          split: option.splits if_splits)
    from me obtain i where s: "s' = Some i" and g: "getUser d' i = Some me"
      by (auto simp add: req_user_def split: option.splits)
    have k: "user_id me = i"
      using g by (rule getUser_key)
    have "fst (resend_verification now' r' d' s') = fst (updateUser d' i ?p)"
      using me nv k
      by (simp add: resend_verification_def generateVerificationToken_eq split_def)
    then show ?thesis
      by (simp add: s req_user_def getUser_updateUser g issued_patch)
  qed
  show ?thesis
    using reg res by (simp add: length_to_hex is_hex_to_hex)
qed

theorem issued_token_and_expiry_witness:
  "status_of (snd (register sample_kdf 7000 (sconst 7) sample_db None carol_body)) = Some 201 \<and>
   status_of (snd (resend_verification 7000 (sconst 7) sample_db (Some 101))) = Some 200 \<and>
   issued 7000 (sconst 7)
     (last (users (fst (fst (register sample_kdf 7000 (sconst 7) sample_db None carol_body))))) \<and>
   (\<exists>u. req_user (fst (resend_verification 7000 (sconst 7) sample_db (Some 101))) (Some 101)
          = Some u \<and>
        issued 7000 (sconst 7) u)"
proof -
  have a: "status_of (snd (register sample_kdf 7000 (sconst 7) sample_db None carol_body))
             = Some 201"
    by (simp add: register_def insertUserSchema_parse_def carol_body_def empty_patch_def
        sample_lookup hashPassword_returns split_def Let_def status_of_def)
  have b: "status_of (snd (resend_verification 7000 (sconst 7) sample_db (Some 101))) = Some 200"
    by (simp add: resend_verification_def req_user_def sample_lookup alice_def split_def
        Let_def status_of_def message_def)
  show ?thesis
    using a b
      issued_token_and_expiry [of sample_kdf 7000 "sconst 7" sample_db None carol_body
        7000 "sconst 7" sample_db "Some 101"]
    by simp
qed

section \<open>Email verification\<close>

text \<open>
  C6. A verification request whose token matches an identity with an expiry strictly
  before the current time is answered with status 400 and the page headed
  \<^verbatim>\<open>Verification Link Expired\<close>, and the store is left as it was, so the identity is not
  marked verified. A token that matches no identity is answered with status 404 and the
  page headed \<^verbatim>\<open>Invalid Verification Link\<close>: another status and another page.
\<close>

theorem expired_token_rejected:
  assumes "token \<noteq> []"
    and "getUserByVerificationToken d token = user # others"
    and "verificationTokenExpiry user = Some expiry"
    and "expiry < now"
    and "unknown \<noteq> []"
    and "getUserByVerificationToken d' unknown = []"
  shows "verify_email now d (Some token) = (d, Res 400 expired_link_page) \<and>
         verify_email now' d' (Some unknown) = (d', Res 404 invalid_link_page) \<and>
         expired_link_page \<noteq> invalid_link_page \<and>
         snd (verify_email now d (Some token)) \<noteq> snd (verify_email now' d' (Some unknown))"
  using assms by (simp add: verify_email_def invalid_link_page_def expired_link_page_def)

theorem expired_token_rejected_witness:
  "verify_email 6000 sample_db (Some ''c0ffee'') = (sample_db, Res 400 expired_link_page) \<and>
   verify_email 6000 sample_db (Some ''dead'') = (sample_db, Res 404 invalid_link_page)"
proof -
  have e: "verificationTokenExpiry alice = Some 5000"
    by (simp add: alice_def)
  show ?thesis
    using expired_token_rejected [OF _ sample_tokens(1) e _ _ sample_tokens(2), of 6000 6000]
    by simp
qed

section \<open>The administrator gate\<close>

text \<open>
  C7. \<^verbatim>\<open>requireAdmin\<close> hands over exactly when the request has an identity attached and
  that identity's administrator flag is set; in every other case it answers 403
  \<^verbatim>\<open>Forbidden\<close>. For an authenticated identity that is not an administrator,
  \<^verbatim>\<open>requireAuth\<close> hands over, \<^verbatim>\<open>requireAdmin\<close> answers 403 and not 401, and an operation
  behind the gate does not run: the response is the gate's and the store is unchanged,
  whatever the operation is.
\<close>

theorem requireAdmin_gate:
  "(requireAdmin u = Next \<longleftrightarrow> (\<exists>user. u = Some user \<and> isAdmin user)) \<and>
   (requireAdmin u = Next \<or> requireAdmin u = Res 403 (message ''Forbidden'')) \<and>
   (u = Some user \<and> \<not> isAdmin user \<longrightarrow>
      requireAuth u = Next \<and>
      requireAdmin u = Res 403 (message ''Forbidden'') \<and>
      status_of (requireAdmin u) \<noteq> Some 401 \<and>
      guarded (requireAdmin u) d operation = (d, Res 403 (message ''Forbidden'')))"
  by (cases u) (auto simp add: requireAdmin_def requireAuth_def guarded_def status_of_def)

theorem requireAdmin_gate_witness:
  "\<not> isAdmin alice \<and>
   requireAuth (Some alice) = Next \<and>
   requireAdmin (Some alice) = Res 403 (message ''Forbidden'') \<and>
   status_of (requireAdmin (Some alice)) \<noteq> Some 401"
proof -
  have h: "\<not> isAdmin alice"
    by (simp add: alice_def)
  show ?thesis
    using h requireAdmin_gate [of "Some alice" alice] by (simp add: status_of_def)
qed

section \<open>Resending to a verified identity\<close>

text \<open>
  C8. When the caller is authenticated and the identity's email-verified flag is set,
  resend-verification answers 400 \<^verbatim>\<open>Your email is already verified\<close> and returns the
  store as it was: no token is drawn and no identity's token or expiry changes.
\<close>

theorem resend_rejected_when_verified:
  assumes "req_user d s = Some user" and "isEmailVerified user"
  shows "resend_verification now r d s =
           (d, Res 400 (message ''Your email is already verified''))"
  using assms by (simp add: resend_verification_def)

theorem resend_rejected_when_verified_witness:
  "isEmailVerified bob \<and>
   resend_verification 7000 (sconst 7) sample_db (Some 102) =
     (sample_db, Res 400 (message ''Your email is already verified''))"
proof -
  have u: "req_user sample_db (Some 102) = Some bob"
    by (simp add: req_user_def sample_lookup)
  have v: "isEmailVerified bob"
    by (simp add: bob_def)
  show ?thesis
    using v resend_rejected_when_verified [OF u v, of 7000 "sconst 7"] by simp
qed

section \<open>Registration never makes an administrator\<close>

lemma isAdmin_patch: "p_isAdmin p = None \<Longrightarrow> isAdmin (apply_patch p u) = isAdmin u"
  by (simp add: apply_patch_def)

text \<open>
  C9. The row \<^verbatim>\<open>createUser\<close> inserts has its administrator flag false, and it is the row
  appended to the table. An \<^verbatim>\<open>isAdmin\<close> key in the registration body changes neither what
  the schema lets through nor anything registration does. After a registration request
  the administrator flags of the table are those from before, followed by \<open>False\<close> when a
  row was created.
\<close>

theorem created_user_not_admin:
  "isAdmin (snd (createUser d ins now)) = False \<and>
   users (fst (createUser d ins now)) = users d @ [snd (createUser d ins now)] \<and>
   insertUserSchema_parse (b\<lparr>p_isAdmin := a\<rparr>) = insertUserSchema_parse b \<and>
   register kdf now r d s (b\<lparr>p_isAdmin := a\<rparr>) = register kdf now r d s b \<and>
   (map isAdmin (users (fst (fst (register kdf now r d s b)))) = map isAdmin (users d) \<or>
    map isAdmin (users (fst (fst (register kdf now r d s b)))) = map isAdmin (users d) @ [False])"
proof -
  have p: "insertUserSchema_parse (b\<lparr>p_isAdmin := a\<rparr>) = insertUserSchema_parse b"
    by (simp add: insertUserSchema_parse_def split: option.splits)
  have m: "map isAdmin (users (fst (fst (register kdf now r d s b)))) = map isAdmin (users d) \<or>
    map isAdmin (users (fst (fst (register kdf now r d s b)))) = map isAdmin (users d) @ [False]"
    by (auto simp add: register_def hashPassword_returns generateVerificationToken_eq Let_def
        split_def users_updateUser createUser_def isAdmin_patch empty_patch_def
        split: sum.splits option.splits)
  show ?thesis
    using m by (simp add: createUser_def Let_def p register_def)
qed

section \<open>Responses carry no verifier\<close>

lemma no_password_key: "''password'' \<notin> fst ` set (without_password obj)"
  by (auto simp add: without_password_def)

lemma has_key_without_password [simp]:
  "has_key ''password'' (Json (without_password obj)) = False"
  using no_password_key [of obj] by (simp add: has_key_def)

lemma has_key_message [simp]: "has_key ''password'' (message m) = False"
  by (simp add: has_key_def message_def)

lemma has_key_simps [simp]:
  "has_key k StatusText = False"
  "has_key k (ValidationMessage issues) = False"
  "has_key k (Html t h p) = False"
  by (simp_all add: has_key_def)

lemma outcome_has_key_simps [simp]:
  "outcome_has_key k (Res c b) = has_key k b"
  "outcome_has_key k (NextErr e) = False"
  "outcome_has_key k Next = False"
  by (simp_all add: outcome_has_key_def)

lemma on_error_no_password [simp]: "outcome_has_key ''password'' (on_error e) = False"
  by (cases e) (simp_all add: on_error_def)

lemma login_no_password: "\<not> outcome_has_key ''password'' (snd (login kdf d s b))"
  by (auto simp add: login_def split: sum.splits strategy_result.splits)

lemma current_user_no_password: "\<not> outcome_has_key ''password'' (current_user u)"
  by (cases u) (simp_all add: current_user_def)

lemma register_no_password: "\<not> outcome_has_key ''password'' (snd (register kdf now r d s b))"
  using no_password_key
  by (auto simp add: register_def hashPassword_returns split_def Let_def has_key_def
      message_def split: sum.splits option.splits)

lemma profile_no_password: "\<not> outcome_has_key ''password'' (snd (update_profile d s b))"
  by (auto simp add: update_profile_def guarded_def requireAuth_def split_def Let_def
      split: option.splits outcome.splits)

lemma without_password_indep:
  "without_password (user_object (u\<lparr>password := v\<rparr>)) = without_password (user_object u)"
  by (simp add: without_password_def user_object_def)

lemma register_response_indep:
  "snd (register kdf now r d s b) = snd (register kdf' now r' d s b)"
  by (auto simp add: register_def hashPassword_returns generateVerificationToken_eq split_def
      Let_def createUser_def user_object_def without_password_def
      split: sum.splits option.splits)

lemma find_by_key_map:
  "(\<And>u. user_id (g u) = user_id u) \<Longrightarrow>
   find (\<lambda>u. user_id u = i) (map g xs) = map_option g (find (\<lambda>u. user_id u = i) xs)"
  by (induction xs) simp_all

lemma getUser_with_passwords:
  "getUser (with_passwords f d) i = map_option (\<lambda>u. u\<lparr>password := f u\<rparr>) (getUser d i)"
  by (simp add: getUser_def with_passwords_def find_by_key_map)

lemma apply_patch_password:
  "p_password p = None \<Longrightarrow>
   apply_patch p (u\<lparr>password := v\<rparr>) = (apply_patch p u)\<lparr>password := v\<rparr>"
  by (simp add: apply_patch_def cong: option.case_cong)

lemma profile_response_indep:
  "snd (update_profile (with_passwords f d) s b) = snd (update_profile d s b)"
proof (cases "req_user d s")
  case None
  then have "req_user (with_passwords f d) s = None"
    by (simp add: req_user_def getUser_with_passwords split: option.splits)
  with None show ?thesis
    by (simp add: update_profile_def requireAuth_def guarded_def)
next
  case (Some me)
  then obtain i where s: "s = Some i" and g: "getUser d i = Some me"
    by (auto simp add: req_user_def split: option.splits)
  have k: "user_id me = i"
    using g by (rule getUser_key)
  let ?p = "empty_patch\<lparr>p_fullName := p_fullName b, p_bankDetails := p_bankDetails b\<rparr>"
  have pp: "p_password ?p = None"
    by (simp add: empty_patch_def)
  have r2: "req_user (with_passwords f d) s = Some (me\<lparr>password := f me\<rparr>)"
    by (simp add: req_user_def s getUser_with_passwords g)
  have x: "snd (update_profile d s b) =
        Res 200 (Json (without_password (user_object (apply_patch ?p me))))"
    using Some k g
    by (simp add: update_profile_def requireAuth_def guarded_def split_def snd_updateUser
        Let_def)
  have y: "snd (update_profile (with_passwords f d) s b) =
        Res 200 (Json (without_password
                         (user_object (apply_patch ?p (me\<lparr>password := f me\<rparr>)))))"
    using r2 k g
    by (simp add: update_profile_def requireAuth_def guarded_def split_def snd_updateUser
        getUser_with_passwords Let_def)
  show ?thesis
    unfolding x y by (simp add: apply_patch_password [OF pp] without_password_indep)
qed

lemma find_map_invariant:
  "(\<And>u. P (g u) = P u) \<Longrightarrow> find P (map g xs) = map_option g (find P xs)"
  by (induction xs) simp_all

lemma getUserByUsername_with_passwords:
  "getUserByUsername (with_passwords f d) name =
     map_option (\<lambda>u. u\<lparr>password := f u\<rparr>) (getUserByUsername d name)"
  by (simp add: getUserByUsername_def with_passwords_def find_map_invariant)

lemma status_of_on_error_200: "status_of (on_error e) \<noteq> Some 200"
  by (cases e) (simp_all add: on_error_def status_of_def)

lemma login_success:
  assumes "status_of (snd (login kdf d s lb)) = Some 200"
  obtains name user where "l_username lb = Some name"
    and "getUserByUsername d name = Some user"
    and "snd (login kdf d s lb) = Res 200 (Json (without_password (user_object user)))"
proof (cases "loginSchema_parse lb")
  case (Inl e)
  with assms show ?thesis
    by (simp add: login_def status_of_on_error_200)
next
  case (Inr np)
  obtain name pw where np: "np = (name, pw)"
    by (cases np)
  from Inr np have n: "l_username lb = Some name"
    by (auto simp add: loginSchema_parse_def Let_def split: option.splits if_splits)
  show ?thesis
  proof (cases "local_strategy kdf d name pw")
    case (Done_error e)
    with assms Inr np show ?thesis
      by (simp add: login_def status_of_def)
  next
    case (Done_fail info)
    with assms Inr np show ?thesis
      by (simp add: login_def status_of_def)
  next
    case (Done_user user)
    then have g: "getUserByUsername d name = Some user"
      by (auto simp add: local_strategy_def split: option.splits sum.splits if_splits)
    from Inr np Done_user
    have "snd (login kdf d s lb) = Res 200 (Json (without_password (user_object user)))"
      by (simp add: login_def)
    with n g show ?thesis
      by (rule that)
  qed
qed

lemma login_response_indep:
  assumes "status_of (snd (login kdf d s lb)) = Some 200"
    and "status_of (snd (login kdf' (with_passwords f d) s' lb')) = Some 200"
    and "l_username lb' = l_username lb"
  shows "snd (login kdf' (with_passwords f d) s' lb') = snd (login kdf d s lb)"
proof -
  from assms(1) obtain name user where n: "l_username lb = Some name"
    and g: "getUserByUsername d name = Some user"
    and r: "snd (login kdf d s lb) = Res 200 (Json (without_password (user_object user)))"
    by (rule login_success)
  from assms(2) obtain name' user' where n': "l_username lb' = Some name'"
    and g': "getUserByUsername (with_passwords f d) name' = Some user'"
    and r': "snd (login kdf' (with_passwords f d) s' lb') =
               Res 200 (Json (without_password (user_object user')))"
    by (rule login_success)
  from n n' assms(3) have "name' = name"
    by simp
  with g g' have "user' = user\<lparr>password := f user\<rparr>"
    by (simp add: getUserByUsername_with_passwords)
  with r r' show ?thesis
    by (simp add: without_password_indep)
qed

lemma compare_accepts_own_key:
  "CHR ''.'' \<notin> set salt \<Longrightarrow>
   comparePasswords kdf p (to_hex (kdf p salt 64) @ CHR ''.'' # salt) = Inr True"
  by (simp add: comparePasswords_def str_split_at_first [OF to_hex_no_dot] str_split_no_sep
      scryptAsync_def from_hex_to_hex timingSafeEqual_def Let_def)

lemma dora_logs_in:
  "status_of (snd (login sample_kdf login_db None dora_login)) = Some 200"
  "status_of (snd (login sample_kdf (with_passwords rehashed login_db) None dora_login)) = Some 200"
  by (simp_all add: login_def loginSchema_parse_def min_length_def dora_login_def
      local_strategy_def getUserByUsername_def login_db_def with_passwords_def dora_def
      rehashed_def compare_accepts_own_key status_of_def)

lemma dora_rehashed: "rehashed dora \<noteq> password dora"
proof -
  have "last (rehashed dora) = CHR ''d''" by (simp add: rehashed_def)
  moreover have "last (password dora) = CHR ''b''" by (simp add: dora_def)
  ultimately show ?thesis by auto
qed

text \<open>
  C10. No response of login, current-user, registration or profile update is a JSON
  object with a \<^verbatim>\<open>password\<close> key, while the current-user response does carry the other
  keys of the identity. The stored verifier has no influence on these bodies: the
  current-user response is the same for an identity with any other verifier, the
  registration response is the same for every key derivation and every random source
  (hence for every verifier stored), the profile-update response is the same on a
  store whose verifiers have all been replaced, and two logins for the same handle that
  both succeed, one on a store and one on that store with its verifiers replaced, get
  the same response.
\<close>

theorem responses_without_password:
  "\<not> outcome_has_key ''password'' (snd (login kdf d s lb)) \<and>
   \<not> outcome_has_key ''password'' (current_user u) \<and>
   \<not> outcome_has_key ''password'' (snd (register kdf now r d s b)) \<and>
   \<not> outcome_has_key ''password'' (snd (update_profile d s b)) \<and>
   outcome_has_key ''username'' (current_user (Some user)) \<and>
   current_user (Some (user\<lparr>password := v\<rparr>)) = current_user (Some user) \<and>
   snd (register kdf now r d s b) = snd (register kdf' now r' d s b) \<and>
   snd (update_profile (with_passwords f d) s b) = snd (update_profile d s b) \<and>
   (status_of (snd (login kdf d s lb)) = Some 200 \<and>
    status_of (snd (login kdf' (with_passwords f d) s' lb')) = Some 200 \<and>
    l_username lb' = l_username lb \<longrightarrow>
      snd (login kdf' (with_passwords f d) s' lb') = snd (login kdf d s lb))"
proof -
  have "outcome_has_key ''username'' (current_user (Some user))"
    by (simp add: current_user_def has_key_def without_password_def user_object_def)
  moreover have "current_user (Some (user\<lparr>password := v\<rparr>)) = current_user (Some user)"
    by (simp add: current_user_def without_password_indep)
  ultimately show ?thesis
    using register_response_indep [of kdf now r d s b kdf' r']
    by (simp add: login_no_password current_user_no_password register_no_password
        profile_no_password profile_response_indep login_response_indep)
qed

theorem responses_without_password_witness:
  "status_of (snd (login sample_kdf login_db None dora_login)) = Some 200 \<and>
   status_of (snd (login sample_kdf (with_passwords rehashed login_db) None dora_login))
     = Some 200 \<and>
   rehashed dora \<noteq> password dora \<and>
   snd (login sample_kdf (with_passwords rehashed login_db) None dora_login) =
     snd (login sample_kdf login_db None dora_login)"
  using dora_logs_in dora_rehashed
    responses_without_password [where kdf = sample_kdf and d = login_db and s = None
      and lb = dora_login and kdf' = sample_kdf and f = rehashed and s' = None
      and lb' = dora_login]
  by simp

end
